theory Spec2Isabelle
  imports Complex_Main "HOL-Library.Multiset"
begin

section \<open>The exploratory-analysis notebook of water_quality_classification\<close>

text \<open>
  The repository is one notebook, \<^verbatim>\<open>01_eda_and_feature_selection\<close>, whose code cells
  run top to bottom over one table. Each code cell is embedded as a function from the
  world it starts in (file system and console) to the outcome of the cell and the world
  it ends in. An exception that leaves a cell is the outcome \<open>Inl e\<close>; the world reached
  when it was raised is kept, since what was printed and written before stays.

  What the cells call in pandas, seaborn, matplotlib and \<^verbatim>\<open>os\<close>:
  \<^item> a column has one storage type for all its values; 64-bit integers are \<open>int\<close> (the
    notebook does no integer arithmetic), a float that is a number is the \<open>real\<close> it
    denotes, and the missing value NaN is \<open>None\<close>;
  \<^item> the file system is the set of directories and the files by path; a path is
    resolved one directory at a time, as the operating system does it, so that a
    missing directory, a regular file in the place of a directory and a name that is
    too long each raise their error;
  \<^item> what the libraries compute and cannot be read off the notebook is a parameter,
    the record \<open>library\<close>: the CSV parser of \<^verbatim>\<open>pd.read_csv\<close>, the coefficient that
    \<^verbatim>\<open>df.corr\<close> computes in 64-bit floats for two columns, and the error, if any, that
    a seaborn or matplotlib call raises. Every theorem holds for every library, unless
    it names one.
\<close>

subsection \<open>Tables\<close>

datatype cell = IntVal int | FloatVal real | BoolVal bool | StrVal string | NaN

text \<open>
  The storage types \<^verbatim>\<open>pd.read_csv\<close> infers: \<^verbatim>\<open>int64\<close>, \<^verbatim>\<open>float64\<close>, \<^verbatim>\<open>bool\<close> and
  \<^verbatim>\<open>object\<close> (text, with NaN for a missing entry).
\<close>

datatype series =
    Int64Col "int list"
  | Float64Col "real option list"
  | BoolCol "bool list"
  | ObjectCol "string option list"

type_synonym dataframe = "(string \<times> series) list"

fun cells :: "series \<Rightarrow> cell list" where
  "cells (Int64Col xs) = map IntVal xs"
| "cells (Float64Col xs) = map (\<lambda>x. case x of None \<Rightarrow> NaN | Some v \<Rightarrow> FloatVal v) xs"
| "cells (BoolCol xs) = map BoolVal xs"
| "cells (ObjectCol xs) = map (\<lambda>x. case x of None \<Rightarrow> NaN | Some v \<Rightarrow> StrVal v) xs"

definition series_len :: "series \<Rightarrow> nat" where
  "series_len s = length (cells s)"

definition df_columns :: "dataframe \<Rightarrow> string list" where
  "df_columns df = map fst df"

definition n_rows :: "dataframe \<Rightarrow> nat" where
  "n_rows df = (case df of [] \<Rightarrow> 0 | (_, s) # _ \<Rightarrow> series_len s)"

text \<open>\<^verbatim>\<open>df.empty\<close>: true when an axis has length 0, that is no column or no row.\<close>

definition df_empty :: "dataframe \<Rightarrow> bool" where
  "df_empty df = (df = [] \<or> n_rows df = 0)"

text \<open>
  What every table built by \<^verbatim>\<open>pd.read_csv\<close> or \<^verbatim>\<open>pd.DataFrame()\<close> satisfies: the
  column labels are pairwise different (the parser renames a repeated header) and all
  columns have the length of the table.
\<close>

definition wf_dataframe :: "dataframe \<Rightarrow> bool" where
  "wf_dataframe df =
     (distinct (df_columns df) \<and> list_all (\<lambda>(_, s). series_len s = n_rows df) df)"

text \<open>
  The exceptions of the model. \<open>FileNameTooLong\<close> is the \<^verbatim>\<open>OSError\<close> with errno 36,
  \<open>ValueError\<close> is raised for a path with a NUL byte and by the plotting library.
\<close>

datatype py_error =
    FileNotFoundError
  | IsADirectoryError
  | NotADirectoryError
  | FileExistsError
  | FileNameTooLong
  | ValueError
  | EmptyDataError
  | ParserError
  | UnicodeDecodeError
  | KeyError string
  | NameError string

text \<open>\<^verbatim>\<open>df[col]\<close>: the column with that label, or KeyError.\<close>

definition df_getitem :: "dataframe \<Rightarrow> string \<Rightarrow> py_error + series" where
  "df_getitem df col = (case map_of df col of None \<Rightarrow> Inl (KeyError col) | Some s \<Rightarrow> Inr s)"

subsection \<open>The world: file system and console\<close>

text \<open>
  A table of correlations, as \<^verbatim>\<open>df.corr\<close> returns it: its row labels, and for every
  column its label and the coefficients of the column, one for each row label.
\<close>

record corr_table =
  row_labels :: "string list"
  columns :: "(string \<times> real option list) list"

datatype printed =
    Text string
  | Shape nat nat
  | StrList "string list"
  | Describe dataframe
  | Counts "(string \<times> nat) list"
  | CorrSeries "(string \<times> real option) list"
  | ValueCounts "(cell \<times> nat) list"

text \<open>
  The calls into matplotlib and seaborn, with what they are given. \<open>Savefig p\<close> is
  \<^verbatim>\<open>plt.savefig(p, bbox_inches='tight')\<close>.
\<close>

datatype plot_call =
    Figure nat nat
  | Heatmap corr_table
  | Countplot string series "cell list"
  | Title string
  | Xlabel string
  | Ylabel string
  | Xticks nat
  | Subplot nat nat nat
  | Histplot series
  | Boxplot series
  | Savefig string
  | TightLayout
  | Show

datatype event =
    Print "printed list"
  | Info dataframe
  | Plot plot_call

datatype fs_file = Bytes string | Image

record world =
  dirs :: "string set"
  files :: "string \<rightharpoonup> fs_file"
  trace :: "event list"

definition emit :: "event list \<Rightarrow> world \<Rightarrow> world" where
  "emit es w = w\<lparr>trace := trace w @ es\<rparr>"

text \<open>The path itself and every leading part of it that ends before a \<^verbatim>\<open>/\<close>.\<close>

fun path_prefixes :: "string \<Rightarrow> string \<Rightarrow> string list" where
  "path_prefixes acc [] = [acc]"
| "path_prefixes acc (c # cs) =
     (if c = CHR ''/'' then acc # path_prefixes (acc @ [c]) cs
      else path_prefixes (acc @ [c]) cs)"

definition leading_dirs :: "string \<Rightarrow> string list" where
  "leading_dirs p = filter (\<lambda>q. q \<noteq> []) (butlast (path_prefixes [] p))"

text \<open>The last component of a path: what follows its last \<^verbatim>\<open>/\<close>.\<close>

fun basename_from :: "string \<Rightarrow> string \<Rightarrow> string" where
  "basename_from acc [] = acc"
| "basename_from acc (c # cs) =
     (if c = CHR ''/'' then basename_from [] cs else basename_from (acc @ [c]) cs)"

definition basename :: "string \<Rightarrow> string" where
  "basename p = basename_from [] p"


text \<open>
  Resolving the directories that lead to a path, in their order: a component of more
  than 255 bytes is a name too long, a component that is a regular file is not a
  directory, a component that is not there is not found.
\<close>

fun walk :: "world \<Rightarrow> string list \<Rightarrow> py_error option" where
  "walk w [] = None"
| "walk w (q # qs) =
     (if 255 < length (basename q) then Some FileNameTooLong
      else if q \<in> dirs w then walk w qs
      else if files w q \<noteq> None then Some NotADirectoryError
      else Some FileNotFoundError)"

text \<open>
  What a system call on the path raises before it looks at the path's last component:
  a NUL byte in the path, a path of 4096 bytes or more, the errors of the walk, a last
  component of more than 255 bytes.
\<close>

definition resolve :: "world \<Rightarrow> string \<Rightarrow> py_error option" where
  "resolve w p =
     (if CHR 0x00 \<in> set p then Some ValueError
      else if 4095 < length p then Some FileNameTooLong
      else case walk w (leading_dirs p) of
             Some e \<Rightarrow> Some e
           | None \<Rightarrow> if 255 < length (basename p) then Some FileNameTooLong else None)"

text \<open>\<^verbatim>\<open>os.path.exists(p)\<close>: false also when the path cannot be resolved.\<close>

definition os_path_exists :: "world \<Rightarrow> string \<Rightarrow> bool" where
  "os_path_exists w p = (resolve w p = None \<and> (p \<in> dirs w \<or> files w p \<noteq> None))"

text \<open>\<^verbatim>\<open>os.mkdir(p)\<close>: the directories leading to the path must be there, the path not.\<close>

definition os_mkdir :: "string \<Rightarrow> world \<Rightarrow> (py_error + unit) \<times> world" where
  "os_mkdir p w =
     (case resolve w p of
        Some e \<Rightarrow> (Inl e, w)
      | None \<Rightarrow>
          if p \<in> dirs w \<or> files w p \<noteq> None then (Inl FileExistsError, w)
          else (Inr (), w\<lparr>dirs := insert p (dirs w)\<rparr>))"

text \<open>
  \<^verbatim>\<open>os.makedirs(p)\<close>: makes the leading directories that do not exist, the outermost
  first, then the directory itself; raises what \<^verbatim>\<open>os.mkdir\<close> raises, so
  FileExistsError when the path is there already and NotADirectoryError when a leading
  part of it is a regular file.
\<close>

fun make_missing :: "string list \<Rightarrow> world \<Rightarrow> (py_error + unit) \<times> world" where
  "make_missing [] w = (Inr (), w)"
| "make_missing (q # qs) w =
     (if os_path_exists w q then make_missing qs w
      else case os_mkdir q w of
             (Inl e, w') \<Rightarrow> (Inl e, w')
           | (Inr _, w') \<Rightarrow> make_missing qs w')"

definition os_makedirs :: "string \<Rightarrow> world \<Rightarrow> (py_error + unit) \<times> world" where
  "os_makedirs p w =
     (case make_missing (leading_dirs p) w of
        (Inl e, w') \<Rightarrow> (Inl e, w')
      | (Inr _, w') \<Rightarrow> os_mkdir p w')"

text \<open>
  Opening a path for writing, as \<^verbatim>\<open>plt.savefig\<close> does once the figure is drawn: the
  error it raises, if any.
\<close>

definition open_for_writing :: "world \<Rightarrow> string \<Rightarrow> py_error option" where
  "open_for_writing w p =
     (case resolve w p of
        Some e \<Rightarrow> Some e
      | None \<Rightarrow> if p \<in> dirs w then Some IsADirectoryError else None)"

text \<open>
  \<^verbatim>\<open>pd.read_csv(p)\<close> opens the path, which raises when the path cannot be resolved,
  names a directory or names nothing; the bytes of the file go to the parser, which
  returns the table or raises (EmptyDataError for a file with no columns, ParserError
  for rows that do not fit, UnicodeDecodeError for bytes that are no text).
\<close>

definition read_csv :: "(string \<Rightarrow> py_error + dataframe) \<Rightarrow> world \<Rightarrow> string \<Rightarrow> py_error + dataframe" where
  "read_csv parser w p =
     (case resolve w p of
        Some e \<Rightarrow> Inl e
      | None \<Rightarrow>
          if p \<in> dirs w then Inl IsADirectoryError
          else case files w p of
                 None \<Rightarrow> Inl FileNotFoundError
               | Some (Bytes b) \<Rightarrow> parser b
               | Some Image \<Rightarrow> Inl UnicodeDecodeError)"

subsection \<open>The libraries\<close>

text \<open>
  \<open>csv_parser\<close> is the parser of \<^verbatim>\<open>pd.read_csv\<close>. \<open>nancorr\<close> is the coefficient that
  \<^verbatim>\<open>df.corr\<close> computes for two columns, the first read as x and the second as y, in
  64-bit floats, the conversion of the columns to floats included. \<open>plot_failure\<close> is
  the error a seaborn or matplotlib call raises, \<open>None\<close> when it returns.
\<close>

record library =
  csv_parser :: "string \<Rightarrow> py_error + dataframe"
  nancorr :: "series \<Rightarrow> series \<Rightarrow> real option"
  plot_failure :: "plot_call \<Rightarrow> py_error option"

text \<open>
  Doing what a statement of a cell does to the world: a print adds to the console, a
  plotting call returns or raises as the library says, and \<^verbatim>\<open>plt.savefig\<close>, once the
  figure is drawn, opens the path and writes the image.
\<close>

fun perform :: "library \<Rightarrow> event \<Rightarrow> world \<Rightarrow> (py_error + unit) \<times> world" where
  "perform lib (Plot (Savefig p)) w =
     (case plot_failure lib (Savefig p) of
        Some e \<Rightarrow> (Inl e, w)
      | None \<Rightarrow>
          (case open_for_writing w p of
             Some e \<Rightarrow> (Inl e, w)
           | None \<Rightarrow> (Inr (), emit [Plot (Savefig p)] (w\<lparr>files := (files w)(p \<mapsto> Image)\<rparr>))))"
| "perform lib (Plot c) w =
     (case plot_failure lib c of
        Some e \<Rightarrow> (Inl e, w)
      | None \<Rightarrow> (Inr (), emit [Plot c] w))"
| "perform lib ev w = (Inr (), emit [ev] w)"

fun perform_all :: "library \<Rightarrow> event list \<Rightarrow> world \<Rightarrow> (py_error + unit) \<times> world" where
  "perform_all lib [] w = (Inr (), w)"
| "perform_all lib (ev # evs) w =
     (case perform lib ev w of
        (Inl e, w') \<Rightarrow> (Inl e, w')
      | (Inr _, w') \<Rightarrow> perform_all lib evs w')"

subsection \<open>The pictographs of the printed messages, as UTF-8 bytes\<close>

definition check_mark :: string where
  "check_mark = [CHR 0xE2, CHR 0x9C, CHR 0x85]"

definition cross_mark :: string where
  "cross_mark = [CHR 0xE2, CHR 0x9D, CHR 0x8C]"






definition input_numbers :: string where
  "input_numbers = [CHR 0xF0, CHR 0x9F, CHR 0x94, CHR 0xA2]"

definition input_letters :: string where
  "input_letters = [CHR 0xF0, CHR 0x9F, CHR 0x94, CHR 0xA0]"

definition id_button :: string where
  "id_button = [CHR 0xF0, CHR 0x9F, CHR 0x86, CHR 0x94]"

definition link_sign :: string where
  "link_sign = [CHR 0xF0, CHR 0x9F, CHR 0x94, CHR 0x97]"

definition warning_sign :: string where
  "warning_sign = [CHR 0xE2, CHR 0x9A, CHR 0xA0, CHR 0xEF, CHR 0xB8, CHR 0x8F]"

definition bullseye :: string where
  "bullseye = [CHR 0xF0, CHR 0x9F, CHR 0x8E, CHR 0xAF]"

definition newline :: string where
  "newline = [CHR 0x0A]"

subsection \<open>Cell 1: create directories and load the dataset\<close>

definition figures_dir :: string where
  "figures_dir = ''reports/figures''"

definition csv_path :: string where
  "csv_path = ''data/raw/water_quality.csv''"

definition create_directories :: "world \<Rightarrow> (py_error + unit) \<times> world" where
  "create_directories w =
     (if \<not> os_path_exists w figures_dir then os_makedirs figures_dir w else (Inr (), w))"

text \<open>
  The \<^verbatim>\<open>try\<close> block: \<^verbatim>\<open>except FileNotFoundError\<close> catches that error alone, any other
  error of \<^verbatim>\<open>pd.read_csv\<close> leaves the cell. \<^verbatim>\<open>pd.DataFrame()\<close> is the table with no
  column.
\<close>

definition load_dataset :: "library \<Rightarrow> world \<Rightarrow> (py_error + dataframe) \<times> world" where
  "load_dataset lib w =
     (case read_csv (csv_parser lib) w csv_path of
        Inr df \<Rightarrow> (Inr df, emit [Print [Text (check_mark @ '' Dataset loaded successfully.'')]] w)
      | Inl FileNotFoundError \<Rightarrow>
          (Inr [],
           emit [Print [Text (cross_mark @ '' Error: 'data/raw/water_quality.csv' not found.'')],
                 Print [Text ''Please ensure the dataset is in the correct directory.'']] w)
      | Inl e \<Rightarrow> (Inl e, w))"

definition cell1 :: "library \<Rightarrow> world \<Rightarrow> (py_error + dataframe) \<times> world" where
  "cell1 lib w =
     (case create_directories w of
        (Inl e, w') \<Rightarrow> (Inl e, w')
      | (Inr _, w') \<Rightarrow> load_dataset lib w')"

subsection \<open>The names the notebook binds\<close>

text \<open>
  After cell 1 the name \<^verbatim>\<open>df\<close> is bound. \<^verbatim>\<open>categorical\<close> and \<^verbatim>\<open>numerical\<close> are
  bound by cell 3 under its guard only; \<open>None\<close> is a name that is not bound, and
  reading it raises NameError.
\<close>

record globals =
  var_df :: dataframe
  var_categorical :: "string list option"
  var_numerical :: "string list option"

type_synonym code_cell = "globals \<Rightarrow> world \<Rightarrow> (py_error + globals) \<times> world"

subsection \<open>Cell 2: basic dataset overview\<close>



subsection \<open>Cell 3: identify feature types\<close>

datatype dtype = Int64 | Float64 | Boolean | Object

fun dtype_of :: "series \<Rightarrow> dtype" where
  "dtype_of (Int64Col _) = Int64"
| "dtype_of (Float64Col _) = Float64"
| "dtype_of (BoolCol _) = Boolean"
| "dtype_of (ObjectCol _) = Object"

text \<open>
  The two selectors the notebook passes to \<^verbatim>\<open>select_dtypes\<close>: \<^verbatim>\<open>'object'\<close> is the
  object storage type, \<^verbatim>\<open>'number'\<close> is every integer and float type. A boolean
  column is neither.
\<close>

definition dtype_included :: "string \<Rightarrow> dtype \<Rightarrow> bool" where
  "dtype_included include t =
     (if include = ''object'' then t = Object
      else if include = ''number'' then t = Int64 \<or> t = Float64
      else False)"

definition select_dtypes :: "string \<Rightarrow> dataframe \<Rightarrow> dataframe" where
  "select_dtypes include df = filter (\<lambda>(_, s). dtype_included include (dtype_of s)) df"

definition cell3 :: code_cell where
  "cell3 g w =
     (if \<not> df_empty (var_df g) then
        (let categorical = df_columns (select_dtypes ''object'' (var_df g));
             numerical = df_columns (select_dtypes ''number'' (var_df g))
         in (Inr (g\<lparr>var_categorical := Some categorical, var_numerical := Some numerical\<rparr>),
             emit [Print [Text (newline @ input_numbers @ '' Numerical Columns:''), StrList numerical],
                   Print [Text (input_letters @ '' Categorical Columns:''), StrList categorical]] w))
      else (Inr g, w))"

subsection \<open>Cell 4: identifier check\<close>

text \<open>
  \<^verbatim>\<open>Series.is_unique\<close>: no value occurs twice, where two missing entries count as the
  same value. \<^verbatim>\<open>Series.nunique(dropna=False)\<close>: the number of distinct values, a
  missing entry counted as a value.
\<close>

definition is_unique :: "series \<Rightarrow> bool" where
  "is_unique s = distinct (cells s)"

definition nunique :: "series \<Rightarrow> nat" where
  "nunique s = length (remdups (cells s))"

definition identifier_message :: "string \<Rightarrow> string" where
  "identifier_message col =
     [CHR 0x27] @ col @ [CHR 0x27]
       @ '' is likely an identifier column as all its values are unique.''"

fun identifier_loop ::
  "dataframe \<Rightarrow> string list \<Rightarrow> bool \<Rightarrow> world \<Rightarrow> (py_error + bool) \<times> world" where
  "identifier_loop df [] is_identifier_found w = (Inr is_identifier_found, w)"
| "identifier_loop df (col # cols) is_identifier_found w =
     (case df_getitem df col of
        Inl e \<Rightarrow> (Inl e, w)
      | Inr s \<Rightarrow>
          if is_unique s
          then identifier_loop df cols True (emit [Print [Text (identifier_message col)]] w)
          else identifier_loop df cols is_identifier_found w)"

text \<open>The test of the loop on a column label: the column is there and passes.\<close>

definition flagged :: "dataframe \<Rightarrow> string \<Rightarrow> bool" where
  "flagged df c = (case df_getitem df c of Inl _ \<Rightarrow> False | Inr s \<Rightarrow> is_unique s)"

definition cell4 :: code_cell where
  "cell4 g w =
     (if \<not> df_empty (var_df g) then
        (case identifier_loop (var_df g) (df_columns (var_df g)) False
                (emit [Print [Text (newline @ id_button @ '' Checking for Identifier Columns...'')]] w) of
           (Inl e, w') \<Rightarrow> (Inl e, w')
         | (Inr is_identifier_found, w') \<Rightarrow>
             if \<not> is_identifier_found
             then (Inr g, emit [Print [Text ''No identifier columns found.'']] w')
             else (Inr g, w'))
      else (Inr g, w))"

subsection \<open>Cell 5: correlation with WQI\<close>

text \<open>
  \<^verbatim>\<open>df.corr(numeric_only=True)\<close> keeps the integer, float and boolean columns. It
  computes the coefficient of every two of them once, with the column that stands later
  in the table as x and the earlier one as y, and stores it at both places of the
  result.
\<close>

definition numeric_data :: "series \<Rightarrow> bool" where
  "numeric_data s = (dtype_of s = Int64 \<or> dtype_of s = Float64 \<or> dtype_of s = Boolean)"

definition get_numeric_data :: "dataframe \<Rightarrow> dataframe" where
  "get_numeric_data df = filter (\<lambda>(_, s). numeric_data s) df"

text \<open>Every column under its label, with its position in the table.\<close>

definition numbered_columns :: "dataframe \<Rightarrow> (string \<times> nat \<times> series) list" where
  "numbered_columns df = map (\<lambda>(i, c, s). (c, i, s)) (zip [0..<length df] df)"

definition pair_coefficient :: "library \<Rightarrow> nat \<times> series \<Rightarrow> nat \<times> series \<Rightarrow> real option" where
  "pair_coefficient lib x y =
     (if fst y \<le> fst x then nancorr lib (snd x) (snd y) else nancorr lib (snd y) (snd x))"

definition df_corr :: "library \<Rightarrow> dataframe \<Rightarrow> corr_table" where
  "df_corr lib df =
     (let num = numbered_columns (get_numeric_data df)
      in \<lparr>row_labels = map fst num,
          columns = map (\<lambda>(cy, y). (cy, map (\<lambda>(cx, x). pair_coefficient lib x y) num)) num\<rparr>)"

text \<open>\<^verbatim>\<open>correlation[col]\<close>: the column with that label as a labelled sequence, or KeyError.\<close>

definition corr_getitem :: "corr_table \<Rightarrow> string \<Rightarrow> py_error + (string \<times> real option) list" where
  "corr_getitem m col =
     (case map_of (columns m) col of
        None \<Rightarrow> Inl (KeyError col)
      | Some vs \<Rightarrow> Inr (zip (row_labels m) vs))"

text \<open>
  \<^verbatim>\<open>sort_values(ascending=False)\<close>: the entries that are not NaN from the largest value
  to the smallest, then the NaN entries in their order. pandas sorts the reversed
  sequence upwards and reverses the result; the order it gives to equal values is the
  sorting routine's, taken here to be that of a stable sort.
\<close>

definition sort_values_descending :: "(string \<times> real option) list \<Rightarrow> (string \<times> real option) list" where
  "sort_values_descending s =
     (let non_nans = List.map_filter (\<lambda>(l, v). map_option (Pair l) v) s;
          nans = filter (\<lambda>(l, v). v = None) s
      in map (\<lambda>(l, x). (l, Some x)) (rev (sort_key snd (rev non_nans))) @ nans)"

text \<open>
  \<^verbatim>\<open>correlation.loc[r, c]\<close> and \<^verbatim>\<open>correlation.loc[r]\<close>: the entry of a row and a column,
  and a row as a labelled sequence.
\<close>

definition corr_loc :: "corr_table \<Rightarrow> string \<Rightarrow> string \<Rightarrow> py_error + real option" where
  "corr_loc m r c =
     (case corr_getitem m c of
        Inl e \<Rightarrow> Inl e
      | Inr col \<Rightarrow> (case map_of col r of None \<Rightarrow> Inl (KeyError r) | Some v \<Rightarrow> Inr v))"

definition corr_row :: "corr_table \<Rightarrow> string \<Rightarrow> py_error + (string \<times> real option) list" where
  "corr_row m r =
     (if r \<in> set (row_labels m)
      then Inr (List.map_filter
                  (\<lambda>(c, vs). map_option (Pair c) (map_of (zip (row_labels m) vs) r)) (columns m))
      else Inl (KeyError r))"

text \<open>
  The order of \<^verbatim>\<open>sort_values(ascending=False)\<close> on two entries, the first printed
  before the second: a value before a value that is not larger, and anything before NaN
  but NaN before NaN only.
\<close>

definition descends :: "real option \<Rightarrow> real option \<Rightarrow> bool" where
  "descends a b =
     (case b of
        None \<Rightarrow> True
      | Some y \<Rightarrow> (case a of None \<Rightarrow> False | Some x \<Rightarrow> y \<le> x))"

text \<open>
  Pearson's coefficient and the sample variance in exact arithmetic, over the values
  the columns denote: what \<^verbatim>\<open>df.corr\<close> and \<^verbatim>\<open>Series.var\<close> compute when no float
  operation rounds, overflows or underflows. The coefficient is taken over the rows
  where both entries are present, at least one such row; the variance is NaN when
  fewer than two entries are present.
\<close>

fun exact_values :: "series \<Rightarrow> real option list" where
  "exact_values (Int64Col xs) = map (\<lambda>x. Some (real_of_int x)) xs"
| "exact_values (Float64Col xs) = xs"
| "exact_values (BoolCol xs) = map (\<lambda>b. Some (if b then 1 else 0)) xs"
| "exact_values (ObjectCol xs) = map (\<lambda>_. None) xs"

fun complete_pairs :: "real option list \<Rightarrow> real option list \<Rightarrow> (real \<times> real) list" where
  "complete_pairs (Some a # xs) (Some b # ys) = (a, b) # complete_pairs xs ys"
| "complete_pairs (_ # xs) (_ # ys) = complete_pairs xs ys"
| "complete_pairs _ _ = []"

definition mean :: "real list \<Rightarrow> real" where
  "mean xs = sum_list xs / real (length xs)"

definition pearson :: "real option list \<Rightarrow> real option list \<Rightarrow> real option" where
  "pearson xs ys =
     (let ps = complete_pairs xs ys; nobs = length ps
      in if nobs < 1 then None
         else
           let mx = mean (map fst ps); my = mean (map snd ps);
               ssqdm_x = sum_list (map (\<lambda>(a, b). (a - mx) * (a - mx)) ps);
               ssqdm_y = sum_list (map (\<lambda>(a, b). (b - my) * (b - my)) ps);
               covxy = sum_list (map (\<lambda>(a, b). (a - mx) * (b - my)) ps);
               divisor = sqrt (ssqdm_x * ssqdm_y)
           in if divisor \<noteq> 0 then Some (covxy / divisor) else None)"

definition variance :: "real option list \<Rightarrow> real option" where
  "variance xs =
     (let vs = List.map_filter id xs; n = length vs
      in if n < 2 then None
         else Some (sum_list (map (\<lambda>a. (a - mean vs) * (a - mean vs)) vs) / (real n - 1)))"

definition heatmap_path :: string where
  "heatmap_path = ''reports/figures/correlation_heatmap.png''"

text \<open>The statements of the cell from the first print on, in their order.\<close>

definition correlation_events :: "corr_table \<Rightarrow> (string \<times> real option) list \<Rightarrow> event list" where
  "correlation_events correlation wqi_corr =
     [Print [Text (newline @ link_sign @ '' Correlation with WQI:'')],
      Print [CorrSeries wqi_corr],
      Plot (Figure 12 10),
      Plot (Heatmap correlation),
      Plot (Title ''Correlation Heatmap of Water Quality Features''),
      Plot (Savefig heatmap_path),
      Print [Text (newline @ check_mark
         @ '' Correlation heatmap saved to 'reports/figures/correlation_heatmap.png'' @ [CHR 0x27])],
      Plot Show]"

definition cell5 :: "library \<Rightarrow> code_cell" where
  "cell5 lib g w =
     (if ''WQI'' \<in> set (df_columns (var_df g)) then
        (let correlation = df_corr lib (var_df g)
         in case corr_getitem correlation ''WQI'' of
              Inl e \<Rightarrow> (Inl e, w)
            | Inr wqi_column \<Rightarrow>
                (let wqi_corr = sort_values_descending wqi_column
                 in case perform_all lib (correlation_events correlation wqi_corr) w of
                      (Inl e, w') \<Rightarrow> (Inl e, w')
                    | (Inr _, w') \<Rightarrow> (Inr g, w')))
      else (Inr g, emit [Print [Text (warning_sign @ '' WQI column not found. Please verify dataset.'')]] w))"

subsection \<open>Cell 6: distribution of the target variable\<close>

text \<open>
  \<^verbatim>\<open>Series.value_counts()\<close>: every value that is not missing with the number of its
  occurrences, the most frequent first.
\<close>

definition value_counts :: "series \<Rightarrow> (cell \<times> nat) list" where
  "value_counts s =
     (let vs = filter (\<lambda>v. v \<noteq> NaN) (cells s);
          firsts = rev (remdups (rev vs))
      in rev (sort_key snd (rev (map (\<lambda>v. (v, count_list vs v)) firsts))))"

definition target_column :: string where
  "target_column = ''Water Quality Classification''"

definition target_plot_path :: string where
  "target_plot_path = ''reports/figures/target_variable_distribution.png''"

text \<open>The statements of the cell after \<^verbatim>\<open>plt.figure\<close>, in their order.\<close>

definition target_events :: "series \<Rightarrow> event list" where
  "target_events s =
     [Plot (Countplot target_column s (map fst (value_counts s))),
      Plot (Title ''Distribution of Water Quality Classification''),
      Plot (Xlabel ''Water Quality Classification''),
      Plot (Ylabel ''Count''),
      Plot (Xticks 45),
      Plot (Savefig target_plot_path),
      Print [Text (newline @ check_mark
         @ '' Target variable distribution plot saved to 'reports/figures/target_variable_distribution.png'' @ [CHR 0x27])],
      Plot Show,
      Print [Text (newline @ bullseye @ '' Class Balance:'')],
      Print [ValueCounts (value_counts s)]]"

definition cell6 :: "library \<Rightarrow> code_cell" where
  "cell6 lib g w =
     (if target_column \<in> set (df_columns (var_df g)) then
        (case perform_all lib [Plot (Figure 10 6)] w of
           (Inl e, w1) \<Rightarrow> (Inl e, w1)
         | (Inr _, w1) \<Rightarrow>
             (case df_getitem (var_df g) target_column of
                Inl e \<Rightarrow> (Inl e, w1)
              | Inr s \<Rightarrow>
                  (case perform_all lib (target_events s) w1 of
                     (Inl e, w2) \<Rightarrow> (Inl e, w2)
                   | (Inr _, w2) \<Rightarrow> (Inr g, w2))))
      else (Inr g, emit [Print [Text (warning_sign @ '' 'Water Quality Classification' column not found.'')]] w))"

subsection \<open>Cell 7: distributions of the numerical features\<close>

definition figure_path :: "string \<Rightarrow> string" where
  "figure_path col = ''reports/figures/distribution_'' @ col @ ''.png''"

text \<open>
  The statements of one round of the loop: the two before the column is looked up, and
  those after it.
\<close>

definition column_opening :: "event list" where
  "column_opening = [Plot (Figure 12 4), Plot (Subplot 1 2 1)]"

definition column_events :: "string \<Rightarrow> series \<Rightarrow> event list" where
  "column_events col s =
     [Plot (Histplot s),
      Plot (Title (''Histogram of '' @ col)),
      Plot (Subplot 1 2 2),
      Plot (Boxplot s),
      Plot (Title (''Box Plot of '' @ col)),
      Plot (Savefig (figure_path col)),
      Plot TightLayout,
      Plot Show]"



subsection \<open>The run of the notebook\<close>


definition fresh_globals :: "dataframe \<Rightarrow> globals" where
  "fresh_globals df = \<lparr>var_df = df, var_categorical = None, var_numerical = None\<rparr>"


text \<open>What a cell adds to the trace of the world it starts in.\<close>

definition output_of :: "(world \<Rightarrow> 'a \<times> world) \<Rightarrow> world \<Rightarrow> event list" where
  "output_of c w = drop (length (trace w)) (trace (snd (c w)))"

subsection \<open>The plotting statements of a run\<close>

text \<open>
  The statements that cells 5, 6 and 7 perform on a table when none of them raises,
  and what it takes for none of their plotting calls to raise and for a column label to
  give a figure path that can be written in the figures directory: no \<^verbatim>\<open>/\<close>, no NUL
  byte, and with the 17 bytes around it no more than 255.
\<close>

definition planned_events :: "library \<Rightarrow> dataframe \<Rightarrow> event list" where
  "planned_events lib df =
     (if ''WQI'' \<in> set (df_columns df) then
        (case corr_getitem (df_corr lib df) ''WQI'' of
           Inl e \<Rightarrow> []
         | Inr wqi_column \<Rightarrow>
             correlation_events (df_corr lib df) (sort_values_descending wqi_column))
      else [])
     @ (if target_column \<in> set (df_columns df) then
          Plot (Figure 10 6)
            # (case df_getitem df target_column of Inl e \<Rightarrow> [] | Inr s \<Rightarrow> target_events s)
        else [])
     @ (if \<not> df_empty df then
          concat (map (\<lambda>col. column_opening
                          @ (case df_getitem df col of Inl e \<Rightarrow> [] | Inr s \<Rightarrow> column_events col s))
                      (df_columns (select_dtypes ''number'' df)))
        else [])"

definition plots_succeed :: "library \<Rightarrow> dataframe \<Rightarrow> bool" where
  "plots_succeed lib df =
     list_all (\<lambda>ev. case ev of Plot c \<Rightarrow> plot_failure lib c = None | _ \<Rightarrow> True)
       (planned_events lib df)"

definition plain_label :: "string \<Rightarrow> bool" where
  "plain_label col = (CHR ''/'' \<notin> set col \<and> CHR 0x00 \<notin> set col \<and> length col \<le> 238)"

subsection \<open>Example inputs\<close>

text \<open>
  A world with nothing on disk, the world that holds the CSV file with given bytes, and
  three worlds without the CSV file in which a regular file stands where the notebook
  expects a directory.
\<close>

definition empty_world :: world where
  "empty_world = \<lparr>dirs = {}, files = Map.empty, trace = []\<rparr>"



definition data_file_world :: world where
  "data_file_world = \<lparr>dirs = {}, files = [''data'' \<mapsto> Bytes []], trace = []\<rparr>"


text \<open>
  Tables: the one of the specification's example (two numeric features, a text column
  of sample names, the index), one with a column of truth values, one whose WQI column
  holds text, one with a \<^verbatim>\<open>/\<close> in a numeric label, one with a numeric column that has
  no value, and one with a column whose squared deviations are beyond the largest
  float when multiplied.
\<close>

definition sample_table :: dataframe where
  "sample_table =
     [(''A'', Int64Col [1, 1, 2]),
      (''B'', Float64Col [Some (1 / 2), None, Some 2]),
      (''ID'', ObjectCol [Some ''s1'', Some ''s2'', Some ''s3'']),
      (''WQI'', Int64Col [10, 20, 20])]"

definition potable_table :: dataframe where
  "potable_table = [(''Potable'', BoolCol [True, False])]"

definition text_wqi_table :: dataframe where
  "text_wqi_table = [(''WQI'', ObjectCol [Some ''high'', Some ''low''])]"

definition slash_table :: dataframe where
  "slash_table = [(''Cl (mg/L)'', Int64Col [1, 2])]"

definition hollow_table :: dataframe where
  "hollow_table = [(''A'', Float64Col [None, None]), (''B'', Int64Col [1, 2])]"

definition overflow_column :: series where
  "overflow_column = Float64Col [Some 0, Some (2 ^ 300)]"

definition overflow_table :: dataframe where
  "overflow_table = [(''X'', overflow_column)]"

text \<open>
  The files the tables are read from, and a library that does on these files, tables
  and columns, and on the file of no bytes, what pandas and seaborn do: the parser
  reads the five files; the coefficient of the overflowing column with itself is 0.0,
  since the product of its two sums of squares, 2 to the 599 each, is infinite in
  64-bit floats; \<^verbatim>\<open>sns.boxplot\<close> raises ValueError on a column with no value. Nothing
  is said by it about other files, columns and calls.
\<close>

definition sample_csv :: string where
  "sample_csv = ''A,B,ID,WQI'' @ newline @ ''1,0.5,s1,10'' @ newline
     @ ''1,,s2,20'' @ newline @ ''2,2.0,s3,20'' @ newline"

definition potable_csv :: string where
  "potable_csv = ''Potable'' @ newline @ ''True'' @ newline @ ''False'' @ newline"

definition text_wqi_csv :: string where
  "text_wqi_csv = ''WQI'' @ newline @ ''high'' @ newline @ ''low'' @ newline"

definition slash_csv :: string where
  "slash_csv = ''Cl (mg/L)'' @ newline @ ''1'' @ newline @ ''2'' @ newline"

definition hollow_csv :: string where
  "hollow_csv = ''A,B'' @ newline @ '',1'' @ newline @ '',2'' @ newline"

definition example_parse :: "string \<Rightarrow> py_error + dataframe" where
  "example_parse b =
     (if b = [] then Inl EmptyDataError
      else if b = sample_csv then Inr sample_table
      else if b = potable_csv then Inr potable_table
      else if b = text_wqi_csv then Inr text_wqi_table
      else if b = slash_csv then Inr slash_table
      else if b = hollow_csv then Inr hollow_table
      else Inl ParserError)"

definition example_nancorr :: "series \<Rightarrow> series \<Rightarrow> real option" where
  "example_nancorr x y =
     (if x = overflow_column \<and> y = overflow_column then Some 0
      else pearson (exact_values x) (exact_values y))"

definition example_plot_failure :: "plot_call \<Rightarrow> py_error option" where
  "example_plot_failure c =
     (case c of
        Boxplot s \<Rightarrow> if list_all (\<lambda>v. v = NaN) (cells s) then Some ValueError else None
      | _ \<Rightarrow> None)"

definition example_library :: library where
  "example_library =
     \<lparr>csv_parser = example_parse, nancorr = example_nancorr, plot_failure = example_plot_failure\<rparr>"

section \<open>Properties\<close>

subsection \<open>Paths and the file system\<close>

lemma leading_dirs_csv_path: "leading_dirs csv_path = [''data'', ''data/raw'']"
  by (simp add: leading_dirs_def csv_path_def)

lemma leading_dirs_figures_dir: "leading_dirs figures_dir = [''reports'']"
  by (simp add: leading_dirs_def figures_dir_def)

lemma leading_dirs_reports: "leading_dirs ''reports'' = []"
  by (simp add: leading_dirs_def)

lemma resolve_reports:
  "resolve w ''reports'' = None"
  by (simp add: resolve_def leading_dirs_reports basename_def)

lemma resolve_figures_dir:
  "resolve w figures_dir =
     (if ''reports'' \<in> dirs w then None
      else if files w ''reports'' \<noteq> None then Some NotADirectoryError
      else Some FileNotFoundError)"
  by (simp add: resolve_def leading_dirs_figures_dir basename_def) (simp add: figures_dir_def)

lemma resolve_csv_path:
  "resolve w csv_path =
     (if ''data'' \<in> dirs w then
        (if ''data/raw'' \<in> dirs w then None
         else if files w ''data/raw'' \<noteq> None then Some NotADirectoryError
         else Some FileNotFoundError)
      else if files w ''data'' \<noteq> None then Some NotADirectoryError
      else Some FileNotFoundError)"
  by (simp add: resolve_def leading_dirs_csv_path basename_def) (simp add: csv_path_def)

lemma os_mkdir_world:
  "files (snd (os_mkdir p w)) = files w
   \<and> trace (snd (os_mkdir p w)) = trace w
   \<and> dirs w \<subseteq> dirs (snd (os_mkdir p w))
   \<and> dirs (snd (os_mkdir p w)) \<subseteq> insert p (dirs w)"
  by (auto simp: os_mkdir_def split: option.splits)

lemma make_missing_Cons:
  "make_missing (q # qs) w =
     (if os_path_exists w q then make_missing qs w
      else case fst (os_mkdir q w) of
             Inl e \<Rightarrow> (Inl e, snd (os_mkdir q w))
           | Inr u \<Rightarrow> make_missing qs (snd (os_mkdir q w)))"
  by (cases "os_mkdir q w") (simp split: sum.splits)

lemma os_makedirs_eq:
  "os_makedirs p w =
     (case fst (make_missing (leading_dirs p) w) of
        Inl e \<Rightarrow> (Inl e, snd (make_missing (leading_dirs p) w))
      | Inr u \<Rightarrow> os_mkdir p (snd (make_missing (leading_dirs p) w)))"
  by (cases "make_missing (leading_dirs p) w") (simp add: os_makedirs_def split: sum.splits)

lemma make_missing_world:
  "files (snd (make_missing qs w)) = files w
   \<and> trace (snd (make_missing qs w)) = trace w
   \<and> dirs w \<subseteq> dirs (snd (make_missing qs w))
   \<and> dirs (snd (make_missing qs w)) \<subseteq> dirs w \<union> set qs"
proof (induction qs arbitrary: w)
  case Nil
  then show ?case by simp
next
  case (Cons q qs)
  show ?case
  proof (cases "os_path_exists w q")
    case True
    with Cons.IH [of w] show ?thesis by auto
  next
    case False
    show ?thesis
    proof (cases "fst (os_mkdir q w)")
      case (Inl e)
      with False os_mkdir_world [of q w] show ?thesis
        by (simp add: make_missing_Cons del: make_missing.simps(2)) blast
    next
      case (Inr u)
      with False Cons.IH [of "snd (os_mkdir q w)"] os_mkdir_world [of q w] show ?thesis
        by (simp add: make_missing_Cons del: make_missing.simps(2)) blast
    qed
  qed
qed

lemma os_makedirs_world:
  "files (snd (os_makedirs p w)) = files w
   \<and> trace (snd (os_makedirs p w)) = trace w
   \<and> dirs w \<subseteq> dirs (snd (os_makedirs p w))
   \<and> dirs (snd (os_makedirs p w)) \<subseteq> dirs w \<union> set (leading_dirs p) \<union> {p}"
proof (cases "fst (make_missing (leading_dirs p) w)")
  case (Inl e)
  with make_missing_world [of "leading_dirs p" w] show ?thesis
    by (simp add: os_makedirs_eq) blast
next
  case (Inr u)
  with make_missing_world [of "leading_dirs p" w]
    os_mkdir_world [of p "snd (make_missing (leading_dirs p) w)"]
  show ?thesis
    by (simp add: os_makedirs_eq) blast
qed

lemma create_directories_world:
  "files (snd (create_directories w)) = files w
   \<and> trace (snd (create_directories w)) = trace w
   \<and> dirs w \<subseteq> dirs (snd (create_directories w))
   \<and> dirs (snd (create_directories w)) \<subseteq> dirs w \<union> {''reports'', figures_dir}"
  using os_makedirs_world [of figures_dir w]
  by (auto simp: create_directories_def leading_dirs_figures_dir)

lemma read_csv_cong:
  assumes "files w' = files w"
    and "''data'' \<in> dirs w' \<longleftrightarrow> ''data'' \<in> dirs w"
    and "''data/raw'' \<in> dirs w' \<longleftrightarrow> ''data/raw'' \<in> dirs w"
    and "csv_path \<in> dirs w' \<longleftrightarrow> csv_path \<in> dirs w"
  shows "read_csv parser w' csv_path = read_csv parser w csv_path"
  using assms by (simp add: read_csv_def resolve_csv_path)

lemma read_csv_after_create_directories:
  "read_csv parser (snd (create_directories w)) csv_path = read_csv parser w csv_path"
proof (rule read_csv_cong)
  show "files (snd (create_directories w)) = files w"
    using create_directories_world by simp
  have sub: "dirs w \<subseteq> dirs (snd (create_directories w))"
    "dirs (snd (create_directories w)) \<subseteq> dirs w \<union> {''reports'', figures_dir}"
    using create_directories_world [of w] by simp_all
  from sub show "''data'' \<in> dirs (snd (create_directories w)) \<longleftrightarrow> ''data'' \<in> dirs w"
    by (auto simp: figures_dir_def)
  from sub show "''data/raw'' \<in> dirs (snd (create_directories w)) \<longleftrightarrow> ''data/raw'' \<in> dirs w"
    by (auto simp: figures_dir_def)
  from sub show "csv_path \<in> dirs (snd (create_directories w)) \<longleftrightarrow> csv_path \<in> dirs w"
    by (auto simp: figures_dir_def csv_path_def)
qed

lemma cell1_eq:
  "cell1 lib w =
     (case fst (create_directories w) of
        Inl e \<Rightarrow> (Inl e, snd (create_directories w))
      | Inr u \<Rightarrow> load_dataset lib (snd (create_directories w)))"
  by (cases "create_directories w") (simp add: cell1_def split: sum.splits)

subsection \<open>The loader\<close>

lemma read_csv_missing:
  assumes "\<not> os_path_exists w csv_path"
    and "files w ''data'' = None" and "files w ''data/raw'' = None"
  shows "read_csv parser w csv_path = Inl FileNotFoundError"
  using assms
  by (auto simp: read_csv_def os_path_exists_def resolve_csv_path split: if_splits)

lemma load_dataset_missing:
  assumes "read_csv (csv_parser lib) w csv_path = Inl FileNotFoundError"
  shows "load_dataset lib w =
           (Inr [],
            emit [Print [Text (cross_mark @ '' Error: 'data/raw/water_quality.csv' not found.'')],
                  Print [Text ''Please ensure the dataset is in the correct directory.'']] w)"
  using assms by (simp add: load_dataset_def)

text \<open>
  C1, as amended. When the CSV path names nothing and no regular file stands at a
  leading part of it (\<^verbatim>\<open>data\<close>, \<^verbatim>\<open>data/raw\<close>), so that opening it raises
  FileNotFoundError, the load stage yields the empty table, prints the two lines of its
  message, and returns normally: no exception leaves it. The first cell as a whole then
  returns the empty table whenever its directory step returns.
\<close>

theorem load_missing_file_empty_table:
  assumes "\<not> os_path_exists w csv_path"
    and "files w ''data'' = None" and "files w ''data/raw'' = None"
  shows "load_dataset lib w =
           (Inr [],
            emit [Print [Text (cross_mark @ '' Error: 'data/raw/water_quality.csv' not found.'')],
                  Print [Text ''Please ensure the dataset is in the correct directory.'']] w)
         \<and> df_empty []
         \<and> (fst (create_directories w) = Inr () \<longrightarrow> (\<exists>w'. cell1 lib w = (Inr [], w')))"
proof -
  have missing: "read_csv (csv_parser lib) w csv_path = Inl FileNotFoundError"
    using assms by (rule read_csv_missing)
  have first: "load_dataset lib w =
           (Inr [],
            emit [Print [Text (cross_mark @ '' Error: 'data/raw/water_quality.csv' not found.'')],
                  Print [Text ''Please ensure the dataset is in the correct directory.'']] w)"
    using missing by (rule load_dataset_missing)
  have "read_csv (csv_parser lib) (snd (create_directories w)) csv_path = Inl FileNotFoundError"
    using missing by (simp add: read_csv_after_create_directories)
  then have "fst (load_dataset lib (snd (create_directories w))) = Inr []"
    by (simp add: load_dataset_missing)
  then have "fst (create_directories w) = Inr () \<longrightarrow> fst (cell1 lib w) = Inr []"
    by (simp add: cell1_eq)
  then have "fst (create_directories w) = Inr () \<longrightarrow> (\<exists>w'. cell1 lib w = (Inr [], w'))"
    by (cases "cell1 lib w") simp
  with first show ?thesis
    by (simp add: df_empty_def)
qed

theorem load_missing_file_empty_table_witness:
  "\<not> os_path_exists empty_world csv_path
   \<and> files empty_world ''data'' = None \<and> files empty_world ''data/raw'' = None
   \<and> fst (load_dataset example_library empty_world) = Inr []
   \<and> fst (create_directories empty_world) = Inr ()
   \<and> fst (cell1 example_library empty_world) = Inr []"
proof -
  have a: "\<not> os_path_exists empty_world csv_path"
    by (simp add: os_path_exists_def empty_world_def)
  have b: "files empty_world ''data'' = None" "files empty_world ''data/raw'' = None"
    by (simp_all add: empty_world_def)
  have c: "fst (create_directories empty_world) = Inr ()"
    by (simp add: create_directories_def os_path_exists_def os_makedirs_eq
        leading_dirs_figures_dir resolve_figures_dir resolve_reports os_mkdir_def empty_world_def)
      (simp add: figures_dir_def)
  from load_missing_file_empty_table [OF a b, of example_library] a b c show ?thesis
    by auto
qed

text \<open>
  C1 as stated fails. With a regular file named \<^verbatim>\<open>data\<close> the CSV path does not exist,
  opening it raises NotADirectoryError, the \<^verbatim>\<open>except FileNotFoundError\<close> clause does not
  catch it, and the exception leaves the load stage.
\<close>

theorem load_not_a_directory_counterexample:
  "\<not> os_path_exists data_file_world csv_path
   \<and> load_dataset example_library data_file_world = (Inl NotADirectoryError, data_file_world)"
  by (simp add: os_path_exists_def load_dataset_def read_csv_def resolve_csv_path
      data_file_world_def)

subsection \<open>What every cell does to the world\<close>

lemma emit_emit: "emit es (emit fs w) = emit (fs @ es) w"
  by (simp add: emit_def)

lemma emit_Nil: "emit [] w = w"
  by (simp add: emit_def)

lemma world_emit [simp]:
  "dirs (emit es w) = dirs w" "files (emit es w) = files w" "trace (emit es w) = trace w @ es"
  by (simp_all add: emit_def)

lemma output_of_emit: "snd (c w) = emit es w \<Longrightarrow> output_of c w = es"
  by (simp add: output_of_def)

subsection \<open>The type classifier\<close>

lemma set_select_dtypes:
  "set (df_columns (select_dtypes inc df))
     = fst ` {(c, s). (c, s) \<in> set df \<and> dtype_included inc (dtype_of s)}"
  by (auto simp: df_columns_def select_dtypes_def image_iff)

lemma distinct_fst_unique:
  "distinct (map fst df) \<Longrightarrow> (c, s) \<in> set df \<Longrightarrow> (c, t) \<in> set df \<Longrightarrow> s = t"
  by (meson eq_key_imp_eq_value)

text \<open>
  C2, as amended. For every table that is not empty, cell 3 binds both lists; no label
  is in both; and the two lists together hold the labels of the columns whose storage
  type is object, integer or float. They hold every label of the table exactly when the
  table has no column of truth values.
\<close>

theorem feature_types_disjoint_cover_typed:
  assumes "wf_dataframe (var_df g)" and "\<not> df_empty (var_df g)"
  shows "\<exists>numerical categorical w'.
           cell3 g w = (Inr (g\<lparr>var_categorical := Some categorical, var_numerical := Some numerical\<rparr>), w')
         \<and> set numerical \<inter> set categorical = {}
         \<and> set numerical \<union> set categorical
             = fst ` {(c, s). (c, s) \<in> set (var_df g) \<and> dtype_of s \<noteq> Boolean}
         \<and> (set numerical \<union> set categorical = set (df_columns (var_df g))
              \<longleftrightarrow> (\<forall>(c, s) \<in> set (var_df g). dtype_of s \<noteq> Boolean))"
proof -
  let ?df = "var_df g"
  let ?num = "df_columns (select_dtypes ''number'' ?df)"
  let ?cat = "df_columns (select_dtypes ''object'' ?df)"
  have d: "distinct (map fst ?df)"
    using assms(1) by (simp add: wf_dataframe_def df_columns_def)
  have run: "cell3 g w =
      (Inr (g\<lparr>var_categorical := Some ?cat, var_numerical := Some ?num\<rparr>),
       emit [Print [Text (newline @ input_numbers @ '' Numerical Columns:''), StrList ?num],
             Print [Text (input_letters @ '' Categorical Columns:''), StrList ?cat]] w)"
    using assms(2) by (simp add: cell3_def Let_def)
  have disj: "set ?num \<inter> set ?cat = {}"
  proof (rule ccontr)
    assume "set ?num \<inter> set ?cat \<noteq> {}"
    then obtain c where "c \<in> set ?num" "c \<in> set ?cat" by blast
    then obtain s t where s: "(c, s) \<in> set ?df" "dtype_included ''number'' (dtype_of s)"
      and t: "(c, t) \<in> set ?df" "dtype_included ''object'' (dtype_of t)"
      by (auto simp: set_select_dtypes)
    from distinct_fst_unique [OF d s(1) t(1)] have "s = t" .
    with s(2) t(2) show False by (auto simp: dtype_included_def)
  qed
  have cover: "set ?num \<union> set ?cat = fst ` {(c, s). (c, s) \<in> set ?df \<and> dtype_of s \<noteq> Boolean}"
  proof -
    have "\<And>t. (dtype_included ''number'' t \<or> dtype_included ''object'' t) = (t \<noteq> Boolean)"
      by (case_tac t) (simp_all add: dtype_included_def)
    then show ?thesis
      unfolding set_select_dtypes by (auto simp: image_iff) 
  qed
  have all: "(set ?num \<union> set ?cat = set (df_columns ?df)) \<longleftrightarrow> (\<forall>(c, s) \<in> set ?df. dtype_of s \<noteq> Boolean)"
  proof
    assume e: "set ?num \<union> set ?cat = set (df_columns ?df)"
    show "\<forall>(c, s) \<in> set ?df. dtype_of s \<noteq> Boolean"
    proof (clarify)
      fix c s assume m: "(c, s) \<in> set ?df" and b: "dtype_of s = Boolean"
      then have "c \<in> set (df_columns ?df)" by (force simp: df_columns_def)
      with e cover have "c \<in> fst ` {(c, s). (c, s) \<in> set ?df \<and> dtype_of s \<noteq> Boolean}" by simp
      then obtain t where "(c, t) \<in> set ?df" "dtype_of t \<noteq> Boolean" by auto
      with distinct_fst_unique [OF d m] b show False by auto
    qed
  next
    assume "\<forall>(c, s) \<in> set ?df. dtype_of s \<noteq> Boolean"
    then show "set ?num \<union> set ?cat = set (df_columns ?df)"
      unfolding cover by (force simp: df_columns_def image_iff)
  qed
  from run disj cover all show ?thesis by blast
qed

text \<open>
  C2 as stated fails: the table with the one column of truth values is not empty, both
  lists come out empty, and the column is in neither.
\<close>

theorem feature_types_cover_counterexample:
  "wf_dataframe potable_table \<and> \<not> df_empty potable_table
   \<and> fst (cell3 \<lparr>var_df = potable_table, var_categorical = None, var_numerical = None\<rparr> empty_world)
       = Inr \<lparr>var_df = potable_table, var_categorical = Some [], var_numerical = Some []\<rparr>
   \<and> set ([] :: string list) \<union> set [] \<noteq> set (df_columns potable_table)"
  by (simp add: potable_table_def wf_dataframe_def df_empty_def n_rows_def series_len_def
      df_columns_def cell3_def select_dtypes_def dtype_included_def)

lemma wf_sample_table: "wf_dataframe sample_table"
  by (simp add: sample_table_def wf_dataframe_def df_columns_def n_rows_def series_len_def)

lemma nonempty_sample_table: "\<not> df_empty sample_table"
  by (simp add: sample_table_def df_empty_def n_rows_def series_len_def)

theorem feature_types_disjoint_cover_typed_witness:
  "wf_dataframe (var_df (fresh_globals sample_table))
   \<and> \<not> df_empty (var_df (fresh_globals sample_table))
   \<and> (\<exists>numerical categorical w'.
         cell3 (fresh_globals sample_table) empty_world
           = (Inr ((fresh_globals sample_table)
                \<lparr>var_categorical := Some categorical, var_numerical := Some numerical\<rparr>), w')
       \<and> set numerical \<inter> set categorical = {}
       \<and> set numerical \<union> set categorical = set (df_columns sample_table))"
proof -
  have h1: "wf_dataframe (var_df (fresh_globals sample_table))"
    by (simp add: fresh_globals_def wf_sample_table)
  have h2: "\<not> df_empty (var_df (fresh_globals sample_table))"
    by (simp add: fresh_globals_def nonempty_sample_table)
  have h3: "\<forall>(c, s) \<in> set (var_df (fresh_globals sample_table)). dtype_of s \<noteq> Boolean"
    by (simp add: fresh_globals_def sample_table_def)
  have v: "var_df (fresh_globals sample_table) = sample_table"
    by (simp add: fresh_globals_def)
  from feature_types_disjoint_cover_typed [OF h1 h2, of empty_world] h3
  have "\<exists>numerical categorical w'.
         cell3 (fresh_globals sample_table) empty_world
           = (Inr ((fresh_globals sample_table)
                \<lparr>var_categorical := Some categorical, var_numerical := Some numerical\<rparr>), w')
       \<and> set numerical \<inter> set categorical = {}
       \<and> set numerical \<union> set categorical = set (df_columns sample_table)"
    unfolding v by blast
  with h1 h2 show ?thesis by blast
qed

subsection \<open>The identifier scanner\<close>

lemma df_getitem_member:
  "distinct (map fst df) \<Longrightarrow> (c, s) \<in> set df \<Longrightarrow> df_getitem df c = Inr s"
  by (simp add: df_getitem_def)

lemma df_getitem_column:
  "c \<in> set (df_columns df) \<Longrightarrow> \<exists>s. df_getitem df c = Inr s \<and> (c, s) \<in> set df"
proof -
  assume "c \<in> set (df_columns df)"
  then obtain s where "map_of df c = Some s"
    by (metis df_columns_def map_of_eq_None_iff not_Some_eq set_map)
  then show ?thesis
    by (auto simp: df_getitem_def dest: map_of_SomeD)
qed

lemma identifier_loop_result:
  "set cols \<subseteq> set (df_columns df) \<Longrightarrow>
   identifier_loop df cols found w =
     (Inr (found \<or> (\<exists>c \<in> set cols. flagged df c)),
      emit (map (\<lambda>c. Print [Text (identifier_message c)]) (filter (flagged df) cols)) w)"
proof (induction cols arbitrary: found w)
  case Nil
  then show ?case by (simp add: emit_Nil)
next
  case (Cons c cols)
  then obtain s where s: "df_getitem df c = Inr s"
    using df_getitem_column [of c df] by auto
  from Cons have sub: "set cols \<subseteq> set (df_columns df)" by simp
  show ?case
    using s by (auto simp: Cons.IH [OF sub] flagged_def emit_emit)
qed

lemma identifier_message_inj: "identifier_message a = identifier_message b \<Longrightarrow> a = b"
  by (simp add: identifier_message_def)

lemma is_unique_iff_nunique: "is_unique s \<longleftrightarrow> nunique s = series_len s"
  unfolding is_unique_def nunique_def series_len_def
  by (metis distinct_remdups length_remdups_eq remdups_id_iff_distinct)

lemma wf_series_len:
  "wf_dataframe df \<Longrightarrow> (c, s) \<in> set df \<Longrightarrow> series_len s = n_rows df"
  by (auto simp: wf_dataframe_def list_all_iff)

text \<open>
  C3. For every table that is not empty and every column of it, cell 4 prints the line
  that reports the column as a likely identifier if and only if the number of distinct
  values of the column is the number of rows of the table.
\<close>

theorem identifier_flag_iff_all_distinct:
  assumes "wf_dataframe (var_df g)" and "\<not> df_empty (var_df g)" and "(col, s) \<in> set (var_df g)"
  shows "Print [Text (identifier_message col)] \<in> set (output_of (cell4 g) w)
           \<longleftrightarrow> nunique s = n_rows (var_df g)"
proof -
  let ?df = "var_df g"
  let ?hits = "filter (flagged ?df) (df_columns ?df)"
  let ?w0 = "emit [Print [Text (newline @ id_button @ '' Checking for Identifier Columns...'')]] w"
  have d: "distinct (map fst ?df)"
    using assms(1) by (simp add: wf_dataframe_def df_columns_def)
  have loop: "identifier_loop ?df (df_columns ?df) False ?w0 =
      (Inr (\<exists>c \<in> set (df_columns ?df). flagged ?df c),
       emit (map (\<lambda>c. Print [Text (identifier_message c)]) ?hits) ?w0)"
    using identifier_loop_result [of "df_columns ?df" ?df False ?w0] by simp
  have "\<exists>tail. tail \<in> {[], [Print [Text ''No identifier columns found.'']]} \<and>
          snd (cell4 g w) =
            emit ([Print [Text (newline @ id_button @ '' Checking for Identifier Columns...'')]]
                  @ map (\<lambda>c. Print [Text (identifier_message c)]) ?hits @ tail) w"
    using assms(2) by (auto simp: cell4_def loop emit_emit)
  then obtain tail where tail: "tail \<in> {[], [Print [Text ''No identifier columns found.'']]}"
    and out: "output_of (cell4 g) w =
            [Print [Text (newline @ id_button @ '' Checking for Identifier Columns...'')]]
                  @ map (\<lambda>c. Print [Text (identifier_message c)]) ?hits @ tail"
    using output_of_emit by blast
  have a: "Print [Text (identifier_message col)]
            \<noteq> Print [Text (newline @ id_button @ '' Checking for Identifier Columns...'')]"
    by (simp add: identifier_message_def newline_def)
  have b: "Print [Text (identifier_message col)] \<notin> set tail"
    using tail by (auto simp: identifier_message_def)
  have "Print [Text (identifier_message col)] \<in> set (output_of (cell4 g) w) \<longleftrightarrow> col \<in> set ?hits"
    using a b by (auto simp: out dest: identifier_message_inj)
  also have "\<dots> \<longleftrightarrow> is_unique s"
    using assms(3) df_getitem_member [OF d assms(3)]
    by (force simp: flagged_def df_columns_def)
  also have "\<dots> \<longleftrightarrow> nunique s = n_rows ?df"
    using wf_series_len [OF assms(1) assms(3)] by (simp add: is_unique_iff_nunique)
  finally show ?thesis .
qed

theorem identifier_flag_iff_all_distinct_witness:
  "wf_dataframe (var_df (fresh_globals sample_table))
   \<and> \<not> df_empty (var_df (fresh_globals sample_table))
   \<and> (''ID'', ObjectCol [Some ''s1'', Some ''s2'', Some ''s3'']) \<in> set (var_df (fresh_globals sample_table))
   \<and> nunique (ObjectCol [Some ''s1'', Some ''s2'', Some ''s3'']) = n_rows (var_df (fresh_globals sample_table))
   \<and> Print [Text (identifier_message ''ID'')]
         \<in> set (output_of (cell4 (fresh_globals sample_table)) empty_world)"
proof -
  have h1: "wf_dataframe (var_df (fresh_globals sample_table))"
    by (simp add: fresh_globals_def wf_sample_table)
  have h2: "\<not> df_empty (var_df (fresh_globals sample_table))"
    by (simp add: fresh_globals_def nonempty_sample_table)
  have h3: "(''ID'', ObjectCol [Some ''s1'', Some ''s2'', Some ''s3''])
              \<in> set (var_df (fresh_globals sample_table))"
    by (simp add: fresh_globals_def sample_table_def)
  have n: "nunique (ObjectCol [Some ''s1'', Some ''s2'', Some ''s3''])
             = n_rows (var_df (fresh_globals sample_table))"
    by (simp add: nunique_def fresh_globals_def sample_table_def n_rows_def series_len_def)
  from identifier_flag_iff_all_distinct [OF h1 h2 h3, of empty_world] n h1 h2 h3
  show ?thesis by blast
qed

subsection \<open>Performing statements\<close>

lemma perform_all_Cons:
  "perform_all lib (ev # evs) w =
     (case fst (perform lib ev w) of
        Inl e \<Rightarrow> (Inl e, snd (perform lib ev w))
      | Inr u \<Rightarrow> perform_all lib evs (snd (perform lib ev w)))"
  by (cases "perform lib ev w") (simp split: sum.splits)

lemma perform_world:
  "dirs (snd (perform lib ev w)) = dirs w
   \<and> (\<forall>p. files w p \<noteq> None \<longrightarrow> files (snd (perform lib ev w)) p \<noteq> None)
   \<and> (\<exists>es. trace (snd (perform lib ev w)) = trace w @ es)"
  by (induction lib ev w rule: perform.induct) (auto split: option.splits)

lemma perform_all_world:
  "dirs (snd (perform_all lib evs w)) = dirs w
   \<and> (\<forall>p. files w p \<noteq> None \<longrightarrow> files (snd (perform_all lib evs w)) p \<noteq> None)
   \<and> (\<exists>es. trace (snd (perform_all lib evs w)) = trace w @ es)"
proof (induction evs arbitrary: w)
  case Nil
  then show ?case by simp
next
  case (Cons ev evs)
  let ?w1 = "snd (perform lib ev w)"
  from perform_world [of lib ev w] obtain es where
    one: "dirs ?w1 = dirs w" "\<forall>p. files w p \<noteq> None \<longrightarrow> files ?w1 p \<noteq> None"
      "trace ?w1 = trace w @ es"
    by blast
  from Cons.IH [of ?w1] obtain fs where
    more: "dirs (snd (perform_all lib evs ?w1)) = dirs ?w1"
      "\<forall>p. files ?w1 p \<noteq> None \<longrightarrow> files (snd (perform_all lib evs ?w1)) p \<noteq> None"
      "trace (snd (perform_all lib evs ?w1)) = trace ?w1 @ fs"
    by blast
  show ?case
  proof (cases "fst (perform lib ev w)")
    case (Inl e)
    with one show ?thesis
      by (simp add: perform_all_Cons del: perform_all.simps(2))
  next
    case (Inr u)
    with one more show ?thesis
      by (simp add: perform_all_Cons del: perform_all.simps(2))
  qed
qed

lemma perform_all_dirs [simp]: "dirs (snd (perform_all lib evs w)) = dirs w"
  using perform_all_world by blast

subsection \<open>The guards of the correlation and the target-distribution cells\<close>

text \<open>
  C6. For every table without a column labelled WQI, cell 5 returns normally having
  done nothing but print its warning: the one event it adds to the trace is that
  line, so no correlation is computed or printed and no figure is drawn or saved, and
  the files on disk, the heatmap image among them, are what they were.
\<close>

theorem wqi_absent_only_warns:
  assumes "''WQI'' \<notin> set (df_columns (var_df g))"
  shows "cell5 lib g w =
           (Inr g, emit [Print [Text (warning_sign @ '' WQI column not found. Please verify dataset.'')]] w)
         \<and> output_of (cell5 lib g) w =
             [Print [Text (warning_sign @ '' WQI column not found. Please verify dataset.'')]]
         \<and> files (snd (cell5 lib g w)) = files w
         \<and> dirs (snd (cell5 lib g w)) = dirs w"
proof -
  have run: "cell5 lib g w =
      (Inr g, emit [Print [Text (warning_sign @ '' WQI column not found. Please verify dataset.'')]] w)"
    using assms by (simp add: cell5_def)
  then show ?thesis
    by (simp add: output_of_emit)
qed

theorem wqi_absent_only_warns_witness:
  "''WQI'' \<notin> set (df_columns (var_df (fresh_globals potable_table)))
   \<and> output_of (cell5 example_library (fresh_globals potable_table)) empty_world =
       [Print [Text (warning_sign @ '' WQI column not found. Please verify dataset.'')]]
   \<and> files (snd (cell5 example_library (fresh_globals potable_table) empty_world)) heatmap_path = None"
proof -
  have h: "''WQI'' \<notin> set (df_columns (var_df (fresh_globals potable_table)))"
    by (simp add: fresh_globals_def potable_table_def df_columns_def)
  from wqi_absent_only_warns [OF h, of example_library empty_world] h show ?thesis
    by (simp add: empty_world_def)
qed

text \<open>
  C7. For every table without a column labelled Water Quality Classification, cell 6
  returns normally having done nothing but print its warning: no count is taken, no
  figure is drawn or saved, and the files on disk are what they were.
\<close>

theorem target_absent_only_warns:
  assumes "target_column \<notin> set (df_columns (var_df g))"
  shows "cell6 lib g w =
           (Inr g, emit [Print [Text (warning_sign @ '' 'Water Quality Classification' column not found.'')]] w)
         \<and> output_of (cell6 lib g) w =
             [Print [Text (warning_sign @ '' 'Water Quality Classification' column not found.'')]]
         \<and> files (snd (cell6 lib g w)) = files w
         \<and> dirs (snd (cell6 lib g w)) = dirs w"
proof -
  have run: "cell6 lib g w =
      (Inr g, emit [Print [Text (warning_sign @ '' 'Water Quality Classification' column not found.'')]] w)"
    using assms by (simp add: cell6_def)
  then show ?thesis
    by (simp add: output_of_emit)
qed

theorem target_absent_only_warns_witness:
  "target_column \<notin> set (df_columns (var_df (fresh_globals sample_table)))
   \<and> output_of (cell6 example_library (fresh_globals sample_table)) empty_world =
       [Print [Text (warning_sign @ '' 'Water Quality Classification' column not found.'')]]
   \<and> files (snd (cell6 example_library (fresh_globals sample_table) empty_world)) target_plot_path = None"
proof -
  have h: "target_column \<notin> set (df_columns (var_df (fresh_globals sample_table)))"
    by (simp add: fresh_globals_def sample_table_def df_columns_def target_column_def)
  from target_absent_only_warns [OF h, of example_library empty_world] h show ?thesis
    by (simp add: empty_world_def)
qed

lemma map_numbered: "map (\<lambda>x. f (snd x)) (zip [0..<length xs] xs) = map f xs"
  by (rule nth_equalityI) simp_all

lemma map_fst_numbered_columns: "map fst (numbered_columns df) = df_columns df"
proof -
  have "map fst (numbered_columns df) = map (\<lambda>x. fst (snd x)) (zip [0..<length df] df)"
    by (simp add: numbered_columns_def split_def o_def)
  then show ?thesis
    by (simp only: map_numbered df_columns_def)
qed

lemma row_labels_df_corr: "row_labels (df_corr lib df) = df_columns (get_numeric_data df)"
  by (simp add: df_corr_def Let_def map_fst_numbered_columns)

lemma columns_df_corr: "map fst (columns (df_corr lib df)) = df_columns (get_numeric_data df)"
proof -
  have "map fst (columns (df_corr lib df)) = map fst (numbered_columns (get_numeric_data df))"
    by (simp add: df_corr_def Let_def split_def o_def)
  then show ?thesis
    by (simp add: map_fst_numbered_columns)
qed

lemma corr_getitem_KeyError:
  "c \<notin> set (df_columns (get_numeric_data df)) \<Longrightarrow>
     corr_getitem (df_corr lib df) c = Inl (KeyError c)"
proof -
  assume "c \<notin> set (df_columns (get_numeric_data df))"
  then have "c \<notin> fst ` set (columns (df_corr lib df))"
    using columns_df_corr [of lib df] by (metis set_map)
  then have "map_of (columns (df_corr lib df)) c = None"
    by (simp add: map_of_eq_None_iff)
  then show ?thesis by (simp add: corr_getitem_def)
qed

lemma corr_getitem_found:
  "c \<in> set (df_columns (get_numeric_data df)) \<Longrightarrow>
     \<exists>col. corr_getitem (df_corr lib df) c = Inr col"
proof -
  assume "c \<in> set (df_columns (get_numeric_data df))"
  then have "c \<in> fst ` set (columns (df_corr lib df))"
    using columns_df_corr [of lib df] by (metis set_map)
  then have "map_of (columns (df_corr lib df)) c \<noteq> None"
    by (simp add: map_of_eq_None_iff)
  then show ?thesis by (auto simp: corr_getitem_def)
qed

text \<open>
  C10. The guard of cell 5 looks at the label only. For every table with pairwise
  different labels whose WQI column is not numeric data (it holds text), the guard
  passes, the table of correlations has no WQI column, and reading it raises
  KeyError: the cell ends there, with nothing printed, the warning included.
\<close>

theorem text_wqi_raises_key_error:
  assumes "distinct (df_columns (var_df g))" and "(''WQI'', s) \<in> set (var_df g)"
    and "\<not> numeric_data s"
  shows "''WQI'' \<in> set (df_columns (var_df g))
         \<and> cell5 lib g w = (Inl (KeyError ''WQI''), w)
         \<and> output_of (cell5 lib g) w = []"
proof -
  have present: "''WQI'' \<in> set (df_columns (var_df g))"
    using assms(2) by (force simp: df_columns_def)
  have d: "distinct (map fst (var_df g))"
    using assms(1) by (simp add: df_columns_def)
  have "''WQI'' \<notin> set (df_columns (get_numeric_data (var_df g)))"
  proof
    assume "''WQI'' \<in> set (df_columns (get_numeric_data (var_df g)))"
    then obtain t where t: "(''WQI'', t) \<in> set (var_df g)" "numeric_data t"
      by (auto simp: df_columns_def get_numeric_data_def)
    from distinct_fst_unique [OF d assms(2) t(1)] t(2) assms(3) show False by simp
  qed
  then have "corr_getitem (df_corr lib (var_df g)) ''WQI'' = Inl (KeyError ''WQI'')"
    by (rule corr_getitem_KeyError)
  with present have run: "cell5 lib g w = (Inl (KeyError ''WQI''), w)"
    by (simp add: cell5_def Let_def)
  with present show ?thesis
    by (simp add: output_of_def)
qed

theorem text_wqi_raises_key_error_witness:
  "distinct (df_columns (var_df (fresh_globals text_wqi_table)))
   \<and> (''WQI'', ObjectCol [Some ''high'', Some ''low'']) \<in> set (var_df (fresh_globals text_wqi_table))
   \<and> \<not> numeric_data (ObjectCol [Some ''high'', Some ''low''])
   \<and> cell5 example_library (fresh_globals text_wqi_table) empty_world
       = (Inl (KeyError ''WQI''), empty_world)"
proof -
  have h1: "distinct (df_columns (var_df (fresh_globals text_wqi_table)))"
    by (simp add: fresh_globals_def text_wqi_table_def df_columns_def)
  have h2: "(''WQI'', ObjectCol [Some ''high'', Some ''low'']) \<in> set (var_df (fresh_globals text_wqi_table))"
    by (simp add: fresh_globals_def text_wqi_table_def)
  have h3: "\<not> numeric_data (ObjectCol [Some ''high'', Some ''low''])"
    by (simp add: numeric_data_def)
  from text_wqi_raises_key_error [OF h1 h2 h3, of example_library empty_world] h1 h2 h3
  show ?thesis by blast
qed

subsection \<open>The cells in terms of their outcome and the world they leave\<close>








subsection \<open>The figures directory\<close>



















end
